theory Spec2Isabelle
  imports Main
begin

section \<open>Message envelopes (notifier_base.py, and the three subclasses)\<close>

text \<open>
  \<^verbatim>\<open>Message\<close> carries \<^verbatim>\<open>text\<close>, \<^verbatim>\<open>photo_url_list\<close> and \<^verbatim>\<open>video_url_list\<close>
  (each list optional); every subclass adds its addressing list as the first constructor
  argument, as the Python constructors do. One datatype holds the three subclasses, since
  a queue holds any of them and each \<^verbatim>\<open>send_message\<close> tests \<^verbatim>\<open>isinstance\<close>.
\<close>

datatype message =
    TelegramMessage "int list" string "string list option" "string list option"
  | CqhttpMessage "string list" string "string list option" "string list option"
  | DiscordMessage "string list" string "string list option" "string list option"

datatype notifier = Telegram | Cqhttp | Discord

fun notifier_name :: "notifier \<Rightarrow> string" where
  "notifier_name Telegram = ''Telegram''"
| "notifier_name Cqhttp = ''Cqhttp''"
| "notifier_name Discord = ''Discord''"

section \<open>Faults, calls and the external world\<close>

text \<open>
  Modelled from the spec: the exception classes of the \<^verbatim>\<open>telegram.error\<close> library and
  their subclass relation are not part of the repository. The spec classifies delivery
  faults into retryable ones (timeout, rate limit, transient network) and non-retryable
  ones (malformed request); the four library classes the source names are therefore
  distinct constructors, and \<open>transient\<close> is exactly the tuple
  \<^verbatim>\<open>(RetryAfter, TimedOut, NetworkError)\<close> of the \<^verbatim>\<open>except\<close> clause in \<^verbatim>\<open>_retry\<close>.
  Every constructor stands for a subclass of Python's \<^verbatim>\<open>Exception\<close>.
\<close>

datatype fault =
    RetryAfter | TimedOut | NetworkError | BadRequest
  | RuntimeError string | AssertionError | AttributeError | ClientError

fun transient :: "fault \<Rightarrow> bool" where
  "transient RetryAfter = True"
| "transient TimedOut = True"
| "transient NetworkError = True"
| "transient _ = False"

datatype input_media = InputMediaPhoto string "string option"

text \<open>An inbound chat message: its date, the id of its chat, and its text (absent for
  a message without text).\<close>

datatype chat_message = ChatMessage int int "string option"

text \<open>An update: its \<^verbatim>\<open>update_id\<close> and its optional message.\<close>

datatype update = Update int "chat_message option"

text \<open>The bot API calls the adapter makes, with their keyword arguments in source order.\<close>

datatype tg_call =
    SendVideo int string string
  | SendPhoto int string string
  | SendMediaGroup int "input_media list"
  | SendMessage int string
  | GetUpdates "int option"

datatype tg_result = Sent | Updates "update list"

text \<open>An HTTP POST: url, name of the body field, its value. \<open>PostData\<close> is
  \<^verbatim>\<open>session.post(url, data={key: value})\<close>, \<open>PostJson\<close> is \<^verbatim>\<open>json={key: value}\<close>.\<close>

datatype http_post = PostData string string string | PostJson string string string

text \<open>An HTTP response: its status code, and what \<^verbatim>\<open>resp.json()\<close> followed by
  \<^verbatim>\<open>.get("status")\<close> gives (a fault when the body does not decode).\<close>

datatype http_response = Response nat "fault + string option"

datatype log_entry =
    RetryWarning fault nat nat
  | SendingWithoutMedia fault
  | FailedToSend string fault
  | WorkerError fault

text \<open>
  The state of the notifier classes together with a record of every effect on the
  outside: the bot API calls attempted, the delays slept, the POSTs issued and the log.
\<close>

record world =
  initialized :: "notifier set"
  update_offset :: "int option"
  tg_calls :: "tg_call list"
  sleeps :: "nat list"
  posts :: "http_post list"
  logs :: "log_entry list"

text \<open>The outside answers a call as a function of the calls attempted before it.\<close>

type_synonym bot = "tg_call list \<Rightarrow> tg_call \<Rightarrow> fault + tg_result"
type_synonym http = "http_post list \<Rightarrow> http_post \<Rightarrow> fault + http_response"

section \<open>Telegram adapter (telegram_notifier.py)\<close>

text \<open>
  \<^verbatim>\<open>_retry\<close>: \<^verbatim>\<open>for i in range(tries)\<close>, with \<open>k\<close> the iterations left, so that
  \<^verbatim>\<open>i + 1 = tries - k\<close> after the attempt. A transient fault is logged and followed by
  a sleep, also after the last attempt; any other fault leaves the function at once.
\<close>

fun retry_loop :: "bot \<Rightarrow> tg_call \<Rightarrow> nat \<Rightarrow> nat \<Rightarrow> nat \<Rightarrow> world \<Rightarrow> (fault + tg_result) \<times> world" where
  "retry_loop api call tries delay 0 w = (Inl (RuntimeError ''Max retries exceeded.''), w)"
| "retry_loop api call tries delay (Suc k) w =
     (let w1 = w\<lparr>tg_calls := tg_calls w @ [call]\<rparr> in
      case api (tg_calls w) call of
        Inr r \<Rightarrow> (Inr r, w1)
      | Inl e \<Rightarrow>
          if transient e
          then retry_loop api call tries delay k
                 (w1\<lparr>logs := logs w1 @ [RetryWarning e (tries - k) tries],
                     sleeps := sleeps w1 @ [delay]\<rparr>)
          else (Inl e, w1))"

definition retry :: "bot \<Rightarrow> tg_call \<Rightarrow> nat \<Rightarrow> nat \<Rightarrow> world \<Rightarrow> (fault + tg_result) \<times> world" where
  "retry api call tries delay w = retry_loop api call tries delay tries w"

text \<open>
  The four branches of \<^verbatim>\<open>_send_message_to_single_chat\<close> differ only in the bot call
  they hand to \<^verbatim>\<open>_retry\<close>; \<open>single_chat_call\<close> is that call, the equations in the order
  of the \<^verbatim>\<open>if\<close>/\<^verbatim>\<open>elif\<close> chain. Python's truth test of an optional list holds for a
  present, non-empty list; \<^verbatim>\<open>photo_url_list[1:10]\<close> is at most nine urls after the first.
  The keyword arguments \<^verbatim>\<open>timeout\<close> and \<^verbatim>\<open>disable_web_page_preview\<close> are constants and
  are left out. \<^verbatim>\<open>_retry\<close> is always called with its defaults, 5 tries and a delay of 5.
\<close>

fun single_chat_call :: "int \<Rightarrow> string \<Rightarrow> string list option \<Rightarrow> string list option \<Rightarrow> tg_call" where
  "single_chat_call chat_id text photo_url_list (Some (v # vs)) = SendVideo chat_id v text"
| "single_chat_call chat_id text (Some [p]) video_url_list = SendPhoto chat_id p text"
| "single_chat_call chat_id text (Some (p # ps)) video_url_list =
     SendMediaGroup chat_id
       (InputMediaPhoto p (Some text) # map (\<lambda>photo_url. InputMediaPhoto photo_url None) (take 9 ps))"
| "single_chat_call chat_id text photo_url_list video_url_list = SendMessage chat_id text"

definition send_message_to_single_chat ::
  "bot \<Rightarrow> int \<Rightarrow> string \<Rightarrow> string list option \<Rightarrow> string list option \<Rightarrow> world
     \<Rightarrow> (fault + tg_result) \<times> world" where
  "send_message_to_single_chat api chat_id text photo_url_list video_url_list w =
     retry api (single_chat_call chat_id text photo_url_list video_url_list) 5 5 w"

text \<open>
  The loop of \<^verbatim>\<open>TelegramNotifier.send_message\<close> over \<^verbatim>\<open>chat_id_list\<close>. Only
  \<^verbatim>\<open>BadRequest\<close> is caught; the resend without media runs inside the handler, so a
  fault of the resend, like any other fault of the first send, leaves the loop.
\<close>

fun send_to_chats ::
  "bot \<Rightarrow> int list \<Rightarrow> string \<Rightarrow> string list option \<Rightarrow> string list option \<Rightarrow> world
     \<Rightarrow> (fault + unit) \<times> world" where
  "send_to_chats api [] text ps vs w = (Inr (), w)"
| "send_to_chats api (chat_id # rest) text ps vs w =
     (case send_message_to_single_chat api chat_id text ps vs w of
        (Inr r, w1) \<Rightarrow> send_to_chats api rest text ps vs w1
      | (Inl e, w1) \<Rightarrow>
          if e = BadRequest
          then (case send_message_to_single_chat api chat_id text None None
                       (w1\<lparr>logs := logs w1 @ [SendingWithoutMedia e]\<rparr>) of
                  (Inr r, w2) \<Rightarrow> send_to_chats api rest text ps vs w2
                | (Inl e2, w2) \<Rightarrow> (Inl e2, w2))
          else (Inl e, w1))"

definition Telegram_send_message :: "bot \<Rightarrow> message \<Rightarrow> world \<Rightarrow> (fault + unit) \<times> world" where
  "Telegram_send_message api m w =
     (if Telegram \<notin> initialized w then (Inl AssertionError, w)
      else case m of
        TelegramMessage chat_id_list text ps vs \<Rightarrow> send_to_chats api chat_id_list text ps vs w
      | _ \<Rightarrow> (Inl AssertionError, w))"

text \<open>\<^verbatim>\<open>_get_updates\<close> and \<^verbatim>\<open>_get_new_updates\<close>; an answer \<open>Sent\<close> to
  \<open>GetUpdates\<close> stands for an empty list of updates.\<close>

definition get_updates :: "bot \<Rightarrow> int option \<Rightarrow> world \<Rightarrow> (fault + update list) \<times> world" where
  "get_updates api offset w =
     (case retry api (GetUpdates offset) 5 5 w of
        (Inl e, w1) \<Rightarrow> (Inl e, w1)
      | (Inr (Updates us), w1) \<Rightarrow> (Inr us, w1)
      | (Inr Sent, w1) \<Rightarrow> (Inr [], w1))"

fun update_id :: "update \<Rightarrow> int" where
  "update_id (Update i m) = i"

definition get_new_updates :: "bot \<Rightarrow> world \<Rightarrow> (fault + update list) \<times> world" where
  "get_new_updates api w =
     (case get_updates api (update_offset w) w of
        (Inl e, w1) \<Rightarrow> (Inl e, w1)
      | (Inr us, w1) \<Rightarrow>
          (Inr us, if us \<noteq> [] then w1\<lparr>update_offset := Some (update_id (last us) + 1)\<rparr> else w1))"

text \<open>
  \<^verbatim>\<open>str.strip\<close> and \<^verbatim>\<open>str.upper\<close> on ASCII text: the white space of Python's
  \<^verbatim>\<open>str.isspace\<close> below 128 is the codes 9 to 13 and 28 to 32, and the letters a to z
  are the only characters below 128 that \<^verbatim>\<open>upper\<close> changes.
\<close>

definition isspace :: "char \<Rightarrow> bool" where
  "isspace c = (let n = (of_char c :: nat) in (9 \<le> n \<and> n \<le> 13) \<or> (28 \<le> n \<and> n \<le> 32))"

definition strip :: "string \<Rightarrow> string" where
  "strip s = rev (dropWhile isspace (rev (dropWhile isspace s)))"

definition upper_char :: "char \<Rightarrow> char" where
  "upper_char c = (let n = (of_char c :: nat) in if 97 \<le> n \<and> n \<le> 122 then char_of (n - 32) else c)"

definition upper :: "string \<Rightarrow> string" where
  "upper s = map upper_char s"

text \<open>
  The \<^verbatim>\<open>for update in updates\<close> loop of \<^verbatim>\<open>confirm\<close>: \<open>None\<close> when the loop ends
  without a \<^verbatim>\<open>return\<close>, \<open>Some (Inr b)\<close> when it returns \<open>b\<close>, \<open>Some (Inl e)\<close> when it
  raises (\<^verbatim>\<open>update.message.text\<close> is \<^verbatim>\<open>None\<close> for a message without text, and
  \<^verbatim>\<open>None.strip()\<close> raises \<^verbatim>\<open>AttributeError\<close>).
\<close>

fun scan_updates :: "int \<Rightarrow> int list \<Rightarrow> update list \<Rightarrow> (fault + bool) option" where
  "scan_updates sending_time chat_id_list [] = None"
| "scan_updates sending_time chat_id_list (Update i None # us) =
     scan_updates sending_time chat_id_list us"
| "scan_updates sending_time chat_id_list (Update i (Some (ChatMessage date chat txt)) # us) =
     (if date < sending_time then scan_updates sending_time chat_id_list us
      else if chat \<notin> set chat_id_list then scan_updates sending_time chat_id_list us
      else case txt of
        None \<Rightarrow> Some (Inl AttributeError)
      | Some t \<Rightarrow>
          if upper (strip t) = ''Y'' then Some (Inr True)
          else if upper (strip t) = ''N'' then Some (Inr False)
          else scan_updates sending_time chat_id_list us)"

text \<open>
  The \<^verbatim>\<open>while True\<close> loop of \<^verbatim>\<open>confirm\<close>, with the number of polling rounds as
  fuel: the first component is \<open>None\<close> when the loop is still polling after that many
  rounds. Each round without a decision is followed by a sleep of 10.
\<close>

fun confirm_poll :: "bot \<Rightarrow> int \<Rightarrow> int list \<Rightarrow> nat \<Rightarrow> world \<Rightarrow> (fault + bool) option \<times> world" where
  "confirm_poll api sending_time chat_id_list 0 w = (None, w)"
| "confirm_poll api sending_time chat_id_list (Suc fuel) w =
     (case get_new_updates api w of
        (Inl e, w1) \<Rightarrow> (Some (Inl e), w1)
      | (Inr us, w1) \<Rightarrow>
          (case scan_updates sending_time chat_id_list us of
             Some r \<Rightarrow> (Some r, w1)
           | None \<Rightarrow> confirm_poll api sending_time chat_id_list fuel
                       (w1\<lparr>sleeps := sleeps w1 @ [10]\<rparr>)))"

text \<open>\<^verbatim>\<open>confirm\<close>; \<open>sending_time\<close> is what the clock reads once the question is sent.\<close>

definition confirm :: "bot \<Rightarrow> int \<Rightarrow> message \<Rightarrow> nat \<Rightarrow> world \<Rightarrow> (fault + bool) option \<times> world" where
  "confirm api sending_time m fuel w =
     (if Telegram \<notin> initialized w then (Some (Inl AssertionError), w)
      else case m of
        TelegramMessage chat_id_list text ps vs \<Rightarrow>
          (case Telegram_send_message api
                  (TelegramMessage chat_id_list (text @ CHR 0x0A # ''Please reply Y/N'') ps vs) w of
             (Inl e, w1) \<Rightarrow> (Some (Inl e), w1)
           | (Inr u, w1) \<Rightarrow> confirm_poll api sending_time chat_id_list fuel w1)
      | _ \<Rightarrow> (Some (Inl AssertionError), w))"

section \<open>Cqhttp adapter (cqhttp_notifier.py)\<close>

text \<open>\<^verbatim>\<open>text.replace(old, '')\<close>: every occurrence of \<open>old\<close>, found from the left and
  not overlapping, is removed; \<open>skip\<close> counts the characters of a found occurrence
  still to drop.\<close>

fun remove_all :: "string \<Rightarrow> nat \<Rightarrow> string \<Rightarrow> string" where
  "remove_all old skip [] = []"
| "remove_all old (Suc skip) (c # cs) = remove_all old skip cs"
| "remove_all old 0 (c # cs) =
     (if old \<noteq> [] \<and> take (length old) (c # cs) = old
      then remove_all old (length old - 1) cs
      else c # remove_all old 0 cs)"

definition remove_http :: "string \<Rightarrow> string" where
  "remove_http text = remove_all ''http://'' 0 (remove_all ''https://'' 0 text)"

text \<open>\<^verbatim>\<open>CqhttpNotifier._post\<close>: success is status 200 and a JSON body whose
  \<^verbatim>\<open>status\<close> is \<^verbatim>\<open>"ok"\<close>. The header is the same for every request and is left out.\<close>

definition Cqhttp_post :: "http \<Rightarrow> string \<Rightarrow> string \<Rightarrow> world \<Rightarrow> (fault + unit) \<times> world" where
  "Cqhttp_post web url message w =
     (let p = PostData url ''message'' message; w1 = w\<lparr>posts := posts w @ [p]\<rparr> in
      case web (posts w) p of
        Inl e \<Rightarrow> (Inl e, w1)
      | Inr (Response status body) \<Rightarrow>
          if status \<noteq> 200 then (Inl (RuntimeError ''Post failed''), w1)
          else case body of
            Inl e \<Rightarrow> (Inl e, w1)
          | Inr st \<Rightarrow>
              if st \<noteq> Some ''ok'' then (Inl (RuntimeError ''Response error''), w1)
              else (Inr (), w1))"

definition Cqhttp_send_text :: "http \<Rightarrow> string \<Rightarrow> string \<Rightarrow> world \<Rightarrow> (fault + unit) \<times> world" where
  "Cqhttp_send_text web url text w = Cqhttp_post web url (remove_http text) w"

definition Cqhttp_send_photo :: "http \<Rightarrow> string \<Rightarrow> string \<Rightarrow> world \<Rightarrow> (fault + unit) \<times> world" where
  "Cqhttp_send_photo web url photo_url w =
     Cqhttp_post web url (''[CQ:image,file='' @ photo_url @ '']'') w"

definition Cqhttp_send_video :: "http \<Rightarrow> string \<Rightarrow> string \<Rightarrow> world \<Rightarrow> (fault + unit) \<times> world" where
  "Cqhttp_send_video web url video_url w =
     Cqhttp_post web url (''[CQ:video,file='' @ video_url @ '']'') w"

text \<open>A \<^verbatim>\<open>for\<close> loop of posts inside the \<^verbatim>\<open>try\<close>: the first fault ends it.\<close>

fun post_each :: "(string \<Rightarrow> world \<Rightarrow> (fault + unit) \<times> world) \<Rightarrow> string list \<Rightarrow> world
    \<Rightarrow> (fault + unit) \<times> world" where
  "post_each f [] w = (Inr (), w)"
| "post_each f (x # xs) w =
     (case f x w of
        (Inr u, w1) \<Rightarrow> post_each f xs w1
      | (Inl e, w1) \<Rightarrow> (Inl e, w1))"

text \<open>\<^verbatim>\<open>if message.photo_url_list: for photo_url in ...\<close>: nothing for an absent or
  empty list.\<close>

fun urls_of :: "string list option \<Rightarrow> string list" where
  "urls_of None = []"
| "urls_of (Some l) = l"

text \<open>The body of the \<^verbatim>\<open>try\<close> for one target url.\<close>

definition Cqhttp_send_to_url ::
  "http \<Rightarrow> string \<Rightarrow> string \<Rightarrow> string list option \<Rightarrow> string list option \<Rightarrow> world
     \<Rightarrow> (fault + unit) \<times> world" where
  "Cqhttp_send_to_url web url text ps vs w =
     (case Cqhttp_send_text web url text w of
        (Inl e, w1) \<Rightarrow> (Inl e, w1)
      | (Inr u, w1) \<Rightarrow>
          (case post_each (Cqhttp_send_photo web url) (urls_of ps) w1 of
             (Inl e, w2) \<Rightarrow> (Inl e, w2)
           | (Inr u, w2) \<Rightarrow> post_each (Cqhttp_send_video web url) (urls_of vs) w2))"

text \<open>The loop over the targets: \<^verbatim>\<open>except Exception\<close> logs the fault of a target and
  the loop goes on with the next one.\<close>

fun try_each_url :: "(string \<Rightarrow> world \<Rightarrow> (fault + unit) \<times> world) \<Rightarrow> string list \<Rightarrow> world \<Rightarrow> world" where
  "try_each_url f [] w = w"
| "try_each_url f (url # urls) w =
     (case f url w of
        (Inr u, w1) \<Rightarrow> try_each_url f urls w1
      | (Inl e, w1) \<Rightarrow> try_each_url f urls (w1\<lparr>logs := logs w1 @ [FailedToSend url e]\<rparr>))"

definition Cqhttp_send_message :: "http \<Rightarrow> message \<Rightarrow> world \<Rightarrow> (fault + unit) \<times> world" where
  "Cqhttp_send_message web m w =
     (if Cqhttp \<notin> initialized w then (Inl AssertionError, w)
      else case m of
        CqhttpMessage url_list text ps vs \<Rightarrow>
          (Inr (), try_each_url (\<lambda>url. Cqhttp_send_to_url web url text ps vs) url_list w)
      | _ \<Rightarrow> (Inl AssertionError, w))"

section \<open>Discord adapter (discord_notifier.py)\<close>

text \<open>\<^verbatim>\<open>DiscordNotifier._post\<close>: success is status 204.\<close>

definition Discord_post :: "http \<Rightarrow> string \<Rightarrow> string \<Rightarrow> world \<Rightarrow> (fault + unit) \<times> world" where
  "Discord_post web url content w =
     (let p = PostJson url ''content'' content; w1 = w\<lparr>posts := posts w @ [p]\<rparr> in
      case web (posts w) p of
        Inl e \<Rightarrow> (Inl e, w1)
      | Inr (Response status body) \<Rightarrow>
          if status \<noteq> 204 then (Inl (RuntimeError ''Discord webhook failed''), w1)
          else (Inr (), w1))"

definition Discord_send_to_url ::
  "http \<Rightarrow> string \<Rightarrow> string \<Rightarrow> string list option \<Rightarrow> string list option \<Rightarrow> world
     \<Rightarrow> (fault + unit) \<times> world" where
  "Discord_send_to_url web url text ps vs w =
     (case Discord_post web url text w of
        (Inl e, w1) \<Rightarrow> (Inl e, w1)
      | (Inr u, w1) \<Rightarrow>
          (case post_each (Discord_post web url) (urls_of ps) w1 of
             (Inl e, w2) \<Rightarrow> (Inl e, w2)
           | (Inr u, w2) \<Rightarrow> post_each (Discord_post web url) (urls_of vs) w2))"

definition Discord_send_message :: "http \<Rightarrow> message \<Rightarrow> world \<Rightarrow> (fault + unit) \<times> world" where
  "Discord_send_message web m w =
     (if Discord \<notin> initialized w then (Inl AssertionError, w)
      else case m of
        DiscordMessage webhook_url_list text ps vs \<Rightarrow>
          (Inr (), try_each_url (\<lambda>url. Discord_send_to_url web url text ps vs) webhook_url_list w)
      | _ \<Rightarrow> (Inl AssertionError, w))"

section \<open>The base class: shared queue, status registry and worker (notifier_base.py)\<close>

text \<open>
  \<^verbatim>\<open>message_queue\<close> is an attribute of the class \<^verbatim>\<open>NotifierBase\<close>, created once in its
  body, and no subclass assigns one of its own: \<^verbatim>\<open>cls.message_queue\<close> is that one queue
  for \<^verbatim>\<open>TelegramNotifier\<close>, \<^verbatim>\<open>CqhttpNotifier\<close> and \<^verbatim>\<open>DiscordNotifier\<close> alike. The
  system state therefore has a single queue. \<open>workers\<close> lists the classes whose
  \<^verbatim>\<open>_work\<close> task \<^verbatim>\<open>init\<close> has created; \<open>events\<close> records, in order, every write to the
  status registry and every call of \<^verbatim>\<open>send_message\<close> by a worker with its outcome.
\<close>

datatype event =
    StatusSet string bool
  | Invoke notifier message
  | Returned notifier "fault + unit"

record sys =
  message_queue :: "message list"
  notifier_status :: "string \<Rightarrow> bool option"
  workers :: "notifier list"
  events :: "event list"
  world :: world

text \<open>
  Modelled from the spec: the module \<^verbatim>\<open>status_tracker\<close> is not part of the repository.
  The spec describes the registry as a single shared key-to-boolean mapping whose only
  mutator is \<open>set(backend, healthy)\<close>.
\<close>

definition set_notifier_status :: "string \<Rightarrow> bool \<Rightarrow> sys \<Rightarrow> sys" where
  "set_notifier_status name healthy s =
     s\<lparr>notifier_status := (notifier_status s)(name \<mapsto> healthy),
       events := events s @ [StatusSet name healthy]\<rparr>"

text \<open>\<^verbatim>\<open>NotifierBase.init\<close>, which the \<^verbatim>\<open>init\<close> of every subclass awaits last.\<close>

definition init :: "notifier \<Rightarrow> sys \<Rightarrow> sys" where
  "init cls s =
     (let s1 = set_notifier_status (notifier_name cls) True s in
      s1\<lparr>world := (world s1)\<lparr>initialized := insert cls (initialized (world s1))\<rparr>,
         workers := workers s1 @ [cls]\<rparr>)"

text \<open>
  Modelled from the spec: the decorator \<^verbatim>\<open>check_initialized\<close> of the module \<^verbatim>\<open>utils\<close>
  is not part of the repository. By the spec \<open>enqueue\<close> requires the actor to be ready and
  fails with a fault when called before \<open>init\<close> completes.
\<close>

definition put_message_into_queue :: "notifier \<Rightarrow> message \<Rightarrow> sys \<Rightarrow> fault + sys" where
  "put_message_into_queue cls m s =
     (if cls \<in> initialized (world s)
      then Inr (s\<lparr>message_queue := message_queue s @ [m]\<rparr>)
      else Inl (RuntimeError ''not initialized''))"

fun send_message :: "bot \<Rightarrow> http \<Rightarrow> notifier \<Rightarrow> message \<Rightarrow> world \<Rightarrow> (fault + unit) \<times> world" where
  "send_message api web Telegram m w = Telegram_send_message api m w"
| "send_message api web Cqhttp m w = Cqhttp_send_message web m w"
| "send_message api web Discord m w = Discord_send_message web m w"

text \<open>
  One pass through the body of \<^verbatim>\<open>while True\<close> in \<^verbatim>\<open>_work\<close>: \<open>None\<close> when the queue is
  empty and the worker stays suspended in \<^verbatim>\<open>message_queue.get()\<close>. The status is set
  to \<^verbatim>\<open>True\<close> as the last statement of the \<^verbatim>\<open>try\<close> block, so only when
  \<^verbatim>\<open>send_message\<close> has not raised; \<^verbatim>\<open>except Exception\<close> catches every fault, prints and
  logs it.
\<close>

definition work_iter :: "bot \<Rightarrow> http \<Rightarrow> notifier \<Rightarrow> sys \<Rightarrow> sys option" where
  "work_iter api web cls s =
     (case message_queue s of
        [] \<Rightarrow> None
      | m # rest \<Rightarrow>
          (let s1 = set_notifier_status (notifier_name cls) False (s\<lparr>message_queue := rest\<rparr>);
               s2 = s1\<lparr>events := events s1 @ [Invoke cls m]\<rparr>;
               (r, w') = send_message api web cls m (world s2);
               s3 = s2\<lparr>world := w', events := events s2 @ [Returned cls r]\<rparr>
           in Some (case r of
                Inr u \<Rightarrow> set_notifier_status (notifier_name cls) True s3
              | Inl e \<Rightarrow> s3\<lparr>world := (world s3)\<lparr>logs := logs (world s3) @ [WorkerError e]\<rparr>\<rparr>)))"

text \<open>The worker loop run for at most \<open>k\<close> passes; it stops early only by suspending
  on an empty queue.\<close>

fun work :: "bot \<Rightarrow> http \<Rightarrow> notifier \<Rightarrow> nat \<Rightarrow> sys \<Rightarrow> sys" where
  "work api web cls 0 s = s"
| "work api web cls (Suc k) s =
     (case work_iter api web cls s of
        None \<Rightarrow> s
      | Some s1 \<Rightarrow> work api web cls k s1)"

text \<open>
  A run of the whole system: producers put messages through some class, and the workers
  created by \<^verbatim>\<open>init\<close> take turns, in any order, each turn being one pass of that
  worker's loop. A put through a class that is not initialised raises to the producer and
  changes nothing; a turn of a worker that was never created, or on an empty queue, is
  no step.
\<close>

datatype action = Put notifier message | Step notifier

fun run :: "bot \<Rightarrow> http \<Rightarrow> action list \<Rightarrow> sys \<Rightarrow> sys" where
  "run api web [] s = s"
| "run api web (Put cls m # acts) s =
     run api web acts (case put_message_into_queue cls m s of Inr s1 \<Rightarrow> s1 | Inl e \<Rightarrow> s)"
| "run api web (Step cls # acts) s =
     run api web acts
       (if cls \<in> set (workers s)
        then (case work_iter api web cls s of Some s1 \<Rightarrow> s1 | None \<Rightarrow> s)
        else s)"

text \<open>The messages a class's \<^verbatim>\<open>send_message\<close> was called with by a worker, in order.\<close>

fun invoked :: "notifier \<Rightarrow> event list \<Rightarrow> message list" where
  "invoked cls [] = []"
| "invoked cls (Invoke c m # es) = (if c = cls then m # invoked cls es else invoked cls es)"
| "invoked cls (e # es) = invoked cls es"

text \<open>The state before any \<^verbatim>\<open>init\<close>.\<close>

definition start :: sys where
  "start = \<lparr>message_queue = [], notifier_status = Map.empty, workers = [], events = [],
            world = \<lparr>initialized = {}, update_offset = None, tg_calls = [], sleeps = [],
                     posts = [], logs = []\<rparr>\<rparr>"

section \<open>Observations and example environments\<close>

text \<open>A bot API that accepts every call, one whose first two calls time out, and one
  that always times out.\<close>

definition accepting :: bot where "accepting h c = Inr Sent"
definition flaky :: bot where "flaky h c = (if length h < 2 then Inl TimedOut else Inr Sent)"
definition timing_out :: bot where "timing_out h c = Inl TimedOut"

text \<open>The chat a bot API call is addressed to.\<close>

fun target_of :: "tg_call \<Rightarrow> int option" where
  "target_of (SendVideo c v t) = Some c"
| "target_of (SendPhoto c p t) = Some c"
| "target_of (SendMediaGroup c ms) = Some c"
| "target_of (SendMessage c t) = Some c"
| "target_of (GetUpdates offset) = None"

text \<open>A bot API that times out on every call addressed to chat 1, and one that
  rejects every such call as a bad request; both accept every other call.\<close>

definition chat1_times_out :: bot where
  "chat1_times_out h c = (if target_of c = Some 1 then Inl TimedOut else Inr Sent)"

definition chat1_rejects :: bot where
  "chat1_rejects h c = (if target_of c = Some 1 then Inl BadRequest else Inr Sent)"

text \<open>An HTTP side on which every POST succeeds, in the way each adapter asks for.\<close>

definition web_ok :: http where
  "web_ok h p = (case p of
     PostData url key v \<Rightarrow> Inr (Response 200 (Inr (Some ''ok'')))
   | PostJson url key v \<Rightarrow> Inr (Response 204 (Inr None)))"

text \<open>The system after the three classes are initialised.\<close>

definition ready :: sys where
  "ready = init Discord (init Cqhttp (init Telegram start))"

text \<open>The bot API calls one run of \<^verbatim>\<open>_send_message_to_single_chat\<close> attempts, in order.\<close>

definition attempts ::
  "bot \<Rightarrow> int \<Rightarrow> string \<Rightarrow> string list option \<Rightarrow> string list option \<Rightarrow> world \<Rightarrow> tg_call list" where
  "attempts api chat_id text ps vs w =
     drop (length (tg_calls w)) (tg_calls (snd (send_message_to_single_chat api chat_id text ps vs w)))"

text \<open>An HTTP side on which every POST to the url \<open>''a''\<close> fails to connect and every
  other POST succeeds.\<close>

definition url_a_down :: http where
  "url_a_down h p = (case p of
     PostData url key v \<Rightarrow> if url = ''a'' then Inl ClientError else Inr (Response 200 (Inr (Some ''ok'')))
   | PostJson url key v \<Rightarrow> if url = ''a'' then Inl ClientError else Inr (Response 204 (Inr None)))"

text \<open>Two text-only envelopes of the Telegram adapter, for chat 1 and for chat 2.\<close>

definition to_chat1 :: message where
  "to_chat1 = TelegramMessage [1] ''a'' None None"

definition to_chat2 :: message where
  "to_chat2 = TelegramMessage [2] ''b'' None None"

text \<open>An inbox: the bot API answers \<open>GetUpdates\<close> with the given batches in turn, one per
  call, then with empty lists; it accepts every other call.\<close>

definition inbox :: "update list list \<Rightarrow> bot" where
  "inbox batches h c = (case c of
     GetUpdates offset \<Rightarrow>
       (let n = length (filter (\<lambda>x. case x of GetUpdates o' \<Rightarrow> True | _ \<Rightarrow> False) h)
        in Inr (Updates (if n < length batches then batches ! n else [])))
   | _ \<Rightarrow> Inr Sent)"

text \<open>An inbox whose first batch holds one reply \<^verbatim>\<open>y\<close> from chat 7 dated 100, and the
  world once the question \<^verbatim>\<open>Go?\<close> has been sent to chat 7.\<close>

definition yes_inbox :: bot where
  "yes_inbox = inbox [[Update 1 (Some (ChatMessage 100 7 (Some ''y'')))]]"

definition asked :: world where
  "asked = snd (Telegram_send_message yes_inbox
     (TelegramMessage [7] (''Go?'' @ CHR 0x0A # ''Please reply Y/N'') None None) (world ready))"

text \<open>The updates \<^verbatim>\<open>confirm\<close> passes over: those without a message, those dated before
  the sending time, and those from a chat that is not a target.\<close>

fun ignored :: "int \<Rightarrow> int list \<Rightarrow> update \<Rightarrow> bool" where
  "ignored t0 chats (Update i None) = True"
| "ignored t0 chats (Update i (Some (ChatMessage date chat txt))) = (date < t0 \<or> chat \<notin> set chats)"

text \<open>The messages a schedule puts, in order.\<close>

fun puts :: "action list \<Rightarrow> message list" where
  "puts [] = []"
| "puts (Put cls m # acts) = m # puts acts"
| "puts (Step cls # acts) = puts acts"

section \<open>Bounded retry\<close>

lemma retry_loop_attempts:
  "\<exists>n. n \<le> k \<and> (0 < k \<longrightarrow> 0 < n) \<and>
     ((\<forall>e. api (tg_calls w) call = Inl e \<longrightarrow> \<not> transient e) \<and> 0 < k \<longrightarrow> n = 1) \<and>
     tg_calls (snd (retry_loop api call tries delay k w)) = tg_calls w @ replicate n call"
proof (induction k arbitrary: w)
  case 0
  then show ?case by simp
next
  case (Suc k)
  show ?case
  proof (cases "api (tg_calls w) call")
    case (Inr r)
    then have "tg_calls (snd (retry_loop api call tries delay (Suc k) w)) = tg_calls w @ replicate 1 call"
      by simp
    then show ?thesis by (intro exI[of _ 1]) simp
  next
    case (Inl e)
    show ?thesis
    proof (cases "transient e")
      case False
      with Inl have "tg_calls (snd (retry_loop api call tries delay (Suc k) w)) = tg_calls w @ replicate 1 call"
        by simp
      then show ?thesis by (intro exI[of _ 1]) simp
    next
      case True
      let ?w = "w\<lparr>tg_calls := tg_calls w @ [call],
                   logs := logs w @ [RetryWarning e (tries - k) tries],
                   sleeps := sleeps w @ [delay]\<rparr>"
      from Suc.IH[of ?w] obtain n where n: "n \<le> k"
        "tg_calls (snd (retry_loop api call tries delay k ?w)) = tg_calls ?w @ replicate n call"
        by blast
      from Inl True have "retry_loop api call tries delay (Suc k) w = retry_loop api call tries delay k ?w"
        by simp
      with n have "tg_calls (snd (retry_loop api call tries delay (Suc k) w)) = tg_calls w @ replicate (Suc n) call"
        by (simp add: replicate_append_same)
      with n(1) Inl True show ?thesis by (intro exI[of _ "Suc n"]) simp
    qed
  qed
qed

lemma retry_loop_all_transient:
  "(\<forall>h. \<exists>e. api h call = Inl e \<and> transient e) \<Longrightarrow>
     fst (retry_loop api call tries d k w) = Inl (RuntimeError ''Max retries exceeded.'') \<and>
     tg_calls (snd (retry_loop api call tries d k w)) = tg_calls w @ replicate k call \<and>
     sleeps (snd (retry_loop api call tries d k w)) = sleeps w @ replicate k d"
proof (induction k arbitrary: w)
  case 0 then show ?case by simp
next
  case (Suc k)
  from Suc.prems obtain e where e: "api (tg_calls w) call = Inl e" "transient e" by blast
  let ?w = "w\<lparr>tg_calls := tg_calls w @ [call],
               logs := logs w @ [RetryWarning e (tries - k) tries],
               sleeps := sleeps w @ [d]\<rparr>"
  from e have step: "retry_loop api call tries d (Suc k) w = retry_loop api call tries d k ?w"
    by simp
  from Suc.IH[of ?w] Suc.prems show ?case
    unfolding step by (simp add: replicate_append_same)
qed

lemma single_chat_attempts:
  "\<exists>n. 1 \<le> n \<and> n \<le> 5 \<and>
     ((\<forall>e. api (tg_calls w) (single_chat_call c t ps vs) = Inl e \<longrightarrow> \<not> transient e) \<longrightarrow> n = 1) \<and>
     tg_calls (snd (send_message_to_single_chat api c t ps vs w)) =
       tg_calls w @ replicate n (single_chat_call c t ps vs)"
  using retry_loop_attempts[of 5 api w "single_chat_call c t ps vs" 5 5]
  unfolding send_message_to_single_chat_def retry_def
  by (metis One_nat_def Suc_leI zero_less_numeral)

text \<open>
  Claim C4. With a retry bound of 5 and a fixed delay \<open>d\<close>: when the first and the second
  attempt of a call meet a transient fault and the third succeeds, \<^verbatim>\<open>_retry\<close> returns
  that success after exactly three attempts and exactly two sleeps of length \<open>d\<close>; it
  never makes more than 5 attempts; and when every attempt meets a transient fault, the
  fault \<^verbatim>\<open>RuntimeError("Max retries exceeded.")\<close> reaches the caller after exactly 5.
\<close>

theorem retry_bounded:
  "(api (tg_calls w) call = Inl e1 \<and> transient e1 \<and>
    api (tg_calls w @ [call]) call = Inl e2 \<and> transient e2 \<and>
    api (tg_calls w @ [call, call]) call = Inr r \<longrightarrow>
      fst (retry api call 5 d w) = Inr r \<and>
      tg_calls (snd (retry api call 5 d w)) = tg_calls w @ [call, call, call] \<and>
      sleeps (snd (retry api call 5 d w)) = sleeps w @ [d, d]) \<and>
   (\<exists>n\<le>5. tg_calls (snd (retry api call 5 d w)) = tg_calls w @ replicate n call) \<and>
   ((\<forall>h. \<exists>e. api h call = Inl e \<and> transient e) \<longrightarrow>
      fst (retry api call 5 d w) = Inl (RuntimeError ''Max retries exceeded.'') \<and>
      tg_calls (snd (retry api call 5 d w)) = tg_calls w @ replicate 5 call)"
proof (intro conjI impI)
  assume "api (tg_calls w) call = Inl e1 \<and> transient e1 \<and>
    api (tg_calls w @ [call]) call = Inl e2 \<and> transient e2 \<and>
    api (tg_calls w @ [call, call]) call = Inr r"
  then show "fst (retry api call 5 d w) = Inr r"
    and "tg_calls (snd (retry api call 5 d w)) = tg_calls w @ [call, call, call]"
    and "sleeps (snd (retry api call 5 d w)) = sleeps w @ [d, d]"
    by (simp_all add: retry_def eval_nat_numeral)
next
  from retry_loop_attempts[of 5 api w call 5 d]
  show "\<exists>n\<le>5. tg_calls (snd (retry api call 5 d w)) = tg_calls w @ replicate n call"
    unfolding retry_def by blast
next
  assume a: "\<forall>h. \<exists>e. api h call = Inl e \<and> transient e"
  from retry_loop_all_transient[where api=api and call=call and tries=5 and d=d and k=5 and w=w] a
  show "fst (retry api call 5 d w) = Inl (RuntimeError ''Max retries exceeded.'')"
    and "tg_calls (snd (retry api call 5 d w)) = tg_calls w @ replicate 5 call"
    unfolding retry_def by simp_all
qed

theorem retry_bounded_witness:
  "fst (retry flaky (SendMessage 1 ''hi'') 5 3 (world start)) = Inr Sent \<and>
   tg_calls (snd (retry flaky (SendMessage 1 ''hi'') 5 3 (world start))) =
     [SendMessage 1 ''hi'', SendMessage 1 ''hi'', SendMessage 1 ''hi''] \<and>
   sleeps (snd (retry flaky (SendMessage 1 ''hi'') 5 3 (world start))) = [3, 3] \<and>
   fst (retry timing_out (SendMessage 1 ''hi'') 5 3 (world start)) =
     Inl (RuntimeError ''Max retries exceeded.'') \<and>
   tg_calls (snd (retry timing_out (SendMessage 1 ''hi'') 5 3 (world start))) =
     replicate 5 (SendMessage 1 ''hi'')"
  using retry_bounded[of flaky "world start" "SendMessage 1 ''hi''" TimedOut TimedOut Sent 3]
    retry_bounded[of timing_out "world start" "SendMessage 1 ''hi''" TimedOut TimedOut Sent 3]
  by (simp add: flaky_def timing_out_def start_def)

section \<open>Per-target sends of the Telegram adapter\<close>

lemma initialized_ready: "initialized (world ready) = {Telegram, Cqhttp, Discord}"
  by (auto simp: ready_def init_def start_def set_notifier_status_def Let_def)

lemma world_ready:
  "world ready = \<lparr>initialized = {Discord, Cqhttp, Telegram}, update_offset = None, tg_calls = [],
     sleeps = [], posts = [], logs = []\<rparr>"
  by (simp add: ready_def init_def start_def set_notifier_status_def Let_def)

lemma attempts_replicate:
  "\<exists>n. 1 \<le> n \<and> n \<le> 5 \<and>
     ((\<forall>e. api (tg_calls w) (single_chat_call c t ps vs) = Inl e \<longrightarrow> \<not> transient e) \<longrightarrow> n = 1) \<and>
     attempts api c t ps vs w = replicate n (single_chat_call c t ps vs)"
proof -
  from single_chat_attempts[of api w c t ps vs] obtain n where n: "1 \<le> n" "n \<le> 5"
    "(\<forall>e. api (tg_calls w) (single_chat_call c t ps vs) = Inl e \<longrightarrow> \<not> transient e) \<longrightarrow> n = 1"
    "tg_calls (snd (send_message_to_single_chat api c t ps vs w)) =
       tg_calls w @ replicate n (single_chat_call c t ps vs)"
    by blast
  from n(4) have "attempts api c t ps vs w = replicate n (single_chat_call c t ps vs)"
    by (simp add: attempts_def)
  with n(1-3) show ?thesis by blast
qed

text \<open>
  Claim C9, amended. For an envelope without videos (list absent or empty), the per-target
  send of the Telegram adapter attempts only one request, between one and five times: with
  exactly one photo the direct photo send with the text as caption; with two or more photos
  one grouped-media send whose first item carries the caption, whose other items carry
  none, and which holds at most 10 items. For an envelope with videos, whatever its
  photos, it is the direct send of the first video with the text as caption. The request
  is attempted exactly once when its first answer is no transient fault.
\<close>

theorem single_chat_media:
  "(videos = None \<or> videos = Some [] \<longrightarrow>
      (\<exists>n. 1 \<le> n \<and> n \<le> 5 \<and>
         attempts api c t (Some [p]) videos w = replicate n (SendPhoto c p t)) \<and>
      (ps \<noteq> [] \<longrightarrow>
         (\<exists>n. 1 \<le> n \<and> n \<le> 5 \<and>
            attempts api c t (Some (p # ps)) videos w =
              replicate n (SendMediaGroup c
                (InputMediaPhoto p (Some t) # map (\<lambda>u. InputMediaPhoto u None) (take 9 ps)))) \<and>
         length (InputMediaPhoto p (Some t) # map (\<lambda>u. InputMediaPhoto u None) (take 9 ps)) \<le> 10)) \<and>
   (\<exists>n. 1 \<le> n \<and> n \<le> 5 \<and>
      attempts api c t photos (Some (v # vs)) w = replicate n (SendVideo c v t)) \<and>
   ((\<forall>e. api (tg_calls w) (single_chat_call c t photos videos) = Inl e \<longrightarrow> \<not> transient e) \<longrightarrow>
      attempts api c t photos videos w = [single_chat_call c t photos videos])"
proof (intro conjI impI)
  assume nv: "videos = None \<or> videos = Some []"
  then have "single_chat_call c t (Some [p]) videos = SendPhoto c p t" by auto
  with attempts_replicate[of api w c t "Some [p]" videos]
  show "\<exists>n. 1 \<le> n \<and> n \<le> 5 \<and> attempts api c t (Some [p]) videos w = replicate n (SendPhoto c p t)"
    by auto
next
  assume nv: "videos = None \<or> videos = Some []" and ne: "ps \<noteq> []"
  then have "single_chat_call c t (Some (p # ps)) videos =
      SendMediaGroup c (InputMediaPhoto p (Some t) # map (\<lambda>u. InputMediaPhoto u None) (take 9 ps))"
    by (cases ps) auto
  with attempts_replicate[of api w c t "Some (p # ps)" videos]
  show "\<exists>n. 1 \<le> n \<and> n \<le> 5 \<and> attempts api c t (Some (p # ps)) videos w =
      replicate n (SendMediaGroup c
        (InputMediaPhoto p (Some t) # map (\<lambda>u. InputMediaPhoto u None) (take 9 ps)))"
    by auto
next
  show "length (InputMediaPhoto p (Some t) # map (\<lambda>u. InputMediaPhoto u None) (take 9 ps)) \<le> 10"
    by simp
next
  from attempts_replicate[of api w c t photos "Some (v # vs)"]
  show "\<exists>n. 1 \<le> n \<and> n \<le> 5 \<and> attempts api c t photos (Some (v # vs)) w = replicate n (SendVideo c v t)"
    by auto
next
  assume "\<forall>e. api (tg_calls w) (single_chat_call c t photos videos) = Inl e \<longrightarrow> \<not> transient e"
  with attempts_replicate[of api w c t photos videos]
  show "attempts api c t photos videos w = [single_chat_call c t photos videos]"
    by auto
qed

theorem single_chat_media_witness:
  "attempts accepting 7 ''t'' (Some [''p'']) None (world start) = [SendPhoto 7 ''p'' ''t''] \<and>
   attempts accepting 7 ''t'' (Some [''p'', ''q'', ''r'']) (Some []) (world start) =
     [SendMediaGroup 7 [InputMediaPhoto ''p'' (Some ''t''), InputMediaPhoto ''q'' None,
        InputMediaPhoto ''r'' None]] \<and>
   attempts accepting 7 ''t'' None (Some [''v'', ''u'']) (world start) = [SendVideo 7 ''v'' ''t'']"
  using single_chat_media[of None accepting 7 "''t''" "''p''" "world start" "[''q'', ''r'']" None "''v''" "[''u'']"]
    single_chat_media[of "Some []" accepting 7 "''t''" "''p''" "world start" "[''q'', ''r'']"
      "Some [''p'', ''q'', ''r'']" "''v''" "[''u'']"]
    single_chat_media[of "Some [''v'', ''u'']" accepting 7 "''t''" "''p''" "world start" "[''q'', ''r'']"
      None "''v''" "[''u'']"]
  by (simp add: attempts_def send_message_to_single_chat_def retry_def accepting_def start_def
      eval_nat_numeral)

text \<open>Claim C9 as stated fails for an envelope with exactly one photo and a video: the
  photo is not sent.\<close>

theorem one_photo_with_video_counterexample:
  "attempts accepting 7 ''t'' (Some [''p'']) (Some [''v'']) (world start) = [SendVideo 7 ''v'' ''t''] \<and>
   SendPhoto 7 ''p'' ''t'' \<notin> set (attempts accepting 7 ''t'' (Some [''p'']) (Some [''v'']) (world start))"
  by (simp add: attempts_def send_message_to_single_chat_def retry_def accepting_def start_def
      eval_nat_numeral)

text \<open>
  Claim C10. For an envelope with a non-empty video list and a non-empty photo list, every
  call the per-target send attempts is the direct send of the first video with the text as
  caption: no photo is sent, and the text is not sent as a message of its own.
\<close>

theorem video_wins_over_photos:
  "\<exists>n. 1 \<le> n \<and> n \<le> 5 \<and>
     attempts api c t (Some (p # ps)) (Some (v # vs)) w = replicate n (SendVideo c v t)"
  using attempts_replicate[of api w c t "Some (p # ps)" "Some (v # vs)"] by auto

theorem video_wins_over_photos_witness:
  "attempts flaky 7 ''t'' (Some [''p'', ''q'']) (Some [''v'', ''u'']) (world start) =
     [SendVideo 7 ''v'' ''t'', SendVideo 7 ''v'' ''t'', SendVideo 7 ''v'' ''t'']"
  using video_wins_over_photos[of flaky 7 "''t''" "''p''" "[''q'']" "''v''" "[''u'']" "world start"]
  by (simp add: attempts_def send_message_to_single_chat_def retry_def flaky_def start_def
      eval_nat_numeral)

section \<open>Fan-out over the targets\<close>

text \<open>
  Claim C2 at a two-target envelope of the Telegram adapter whose first target always
  times out: the retries for chat 1 are exhausted, the fault leaves \<^verbatim>\<open>send_message\<close>,
  and no call for chat 2 is attempted.
\<close>

theorem telegram_target_fault_stops_fanout:
  "fst (Telegram_send_message chat1_times_out (TelegramMessage [1, 2] ''hi'' None None) (world ready)) =
     Inl (RuntimeError ''Max retries exceeded.'') \<and>
   tg_calls (snd (Telegram_send_message chat1_times_out (TelegramMessage [1, 2] ''hi'' None None)
     (world ready))) = replicate 5 (SendMessage 1 ''hi'')"
  by (simp add: Telegram_send_message_def world_ready send_message_to_single_chat_def retry_def
      chat1_times_out_def eval_nat_numeral)

text \<open>
  Claim C5 at a two-target envelope with one photo, where chat 1 rejects every request:
  the photo send is rejected, the text-only resend to chat 1 is made once and rejected
  too, its fault leaves \<^verbatim>\<open>send_message\<close>, and no call for chat 2 is attempted.
\<close>

theorem telegram_resend_fault_stops_fanout:
  "fst (Telegram_send_message chat1_rejects (TelegramMessage [1, 2] ''hi'' (Some [''p'']) None)
     (world ready)) = Inl BadRequest \<and>
   tg_calls (snd (Telegram_send_message chat1_rejects (TelegramMessage [1, 2] ''hi'' (Some [''p'']) None)
     (world ready))) = [SendPhoto 1 ''p'' ''hi'', SendMessage 1 ''hi''] \<and>
   logs (snd (Telegram_send_message chat1_rejects (TelegramMessage [1, 2] ''hi'' (Some [''p'']) None)
     (world ready))) = [SendingWithoutMedia BadRequest]"
  by (simp add: Telegram_send_message_def world_ready send_message_to_single_chat_def retry_def
      chat1_rejects_def eval_nat_numeral)

section \<open>The Cqhttp adapter's posts\<close>

lemma Cqhttp_post_ok:
  "web (posts w) (PostData url ''message'' msg) = Inr (Response 200 (Inr (Some ''ok''))) \<Longrightarrow>
   Cqhttp_post web url msg w = (Inr (), w\<lparr>posts := posts w @ [PostData url ''message'' msg]\<rparr>)"
  by (simp add: Cqhttp_post_def)

lemma post_each_Cqhttp_ok:
  assumes "\<forall>h u msg. web h (PostData u ''message'' msg) = Inr (Response 200 (Inr (Some ''ok'')))"
  shows "post_each (\<lambda>x. Cqhttp_post web url (f x)) xs w =
           (Inr (), w\<lparr>posts := posts w @ map (\<lambda>x. PostData url ''message'' (f x)) xs\<rparr>)"
proof (induction xs arbitrary: w)
  case Nil
  then show ?case by simp
next
  case (Cons x xs)
  from assms have "Cqhttp_post web url (f x) w =
      (Inr (), w\<lparr>posts := posts w @ [PostData url ''message'' (f x)]\<rparr>)"
    by (simp add: Cqhttp_post_ok)
  then show ?case by (simp add: Cons.IH)
qed

text \<open>
  Claim C7, amended. When every POST of the gateway succeeds and the class is initialised,
  \<^verbatim>\<open>send_message\<close> on an envelope with one target issues, in this order, one POST whose
  \<^verbatim>\<open>message\<close> is the text with every \<^verbatim>\<open>https://\<close> and \<^verbatim>\<open>http://\<close> removed, then one
  POST per photo whose \<^verbatim>\<open>message\<close> is the token \<^verbatim>\<open>[CQ:image,file=URL]\<close> with the photo url
  unchanged, then one POST per video with the token \<^verbatim>\<open>[CQ:video,file=URL]\<close>. For the
  envelope of the claim these are \<^verbatim>\<open>hello\<close>, \<^verbatim>\<open>[CQ:image,file=http://x/1.jpg]\<close> and
  \<^verbatim>\<open>[CQ:image,file=http://x/2.jpg]\<close>.
\<close>

theorem Cqhttp_posts_in_order:
  "(\<forall>h u msg. web h (PostData u ''message'' msg) = Inr (Response 200 (Inr (Some ''ok'')))) \<and>
   Cqhttp \<in> initialized w \<longrightarrow>
     fst (Cqhttp_send_message web (CqhttpMessage [url] text ps vs) w) = Inr () \<and>
     posts (snd (Cqhttp_send_message web (CqhttpMessage [url] text ps vs) w)) =
       posts w @ PostData url ''message'' (remove_http text)
         # map (\<lambda>photo_url. PostData url ''message'' (''[CQ:image,file='' @ photo_url @ '']'')) (urls_of ps)
         @ map (\<lambda>video_url. PostData url ''message'' (''[CQ:video,file='' @ video_url @ '']'')) (urls_of vs)"
proof (intro impI, elim conjE)
  assume ok: "\<forall>h u msg. web h (PostData u ''message'' msg) = Inr (Response 200 (Inr (Some ''ok'')))"
    and ini: "Cqhttp \<in> initialized w"
  have photo: "Cqhttp_send_photo web url = (\<lambda>x. Cqhttp_post web url (''[CQ:image,file='' @ x @ '']''))"
    by (intro ext) (simp add: Cqhttp_send_photo_def)
  have video: "Cqhttp_send_video web url = (\<lambda>x. Cqhttp_post web url (''[CQ:video,file='' @ x @ '']''))"
    by (intro ext) (simp add: Cqhttp_send_video_def)
  from ok have sent_text: "Cqhttp_send_text web url text w =
      (Inr (), w\<lparr>posts := posts w @ [PostData url ''message'' (remove_http text)]\<rparr>)"
    by (simp add: Cqhttp_send_text_def Cqhttp_post_ok)
  have one: "Cqhttp_send_to_url web url text ps vs w =
      (Inr (), w\<lparr>posts := posts w @ PostData url ''message'' (remove_http text)
         # map (\<lambda>photo_url. PostData url ''message'' (''[CQ:image,file='' @ photo_url @ '']'')) (urls_of ps)
         @ map (\<lambda>video_url. PostData url ''message'' (''[CQ:video,file='' @ video_url @ '']'')) (urls_of vs)\<rparr>)"
    unfolding Cqhttp_send_to_url_def sent_text photo video
    by (simp add: post_each_Cqhttp_ok[OF ok])
  from ini one
  show "fst (Cqhttp_send_message web (CqhttpMessage [url] text ps vs) w) = Inr () \<and>
     posts (snd (Cqhttp_send_message web (CqhttpMessage [url] text ps vs) w)) =
       posts w @ PostData url ''message'' (remove_http text)
         # map (\<lambda>photo_url. PostData url ''message'' (''[CQ:image,file='' @ photo_url @ '']'')) (urls_of ps)
         @ map (\<lambda>video_url. PostData url ''message'' (''[CQ:video,file='' @ video_url @ '']'')) (urls_of vs)"
    by (simp add: Cqhttp_send_message_def)
qed

lemma remove_http_hello: "remove_http ''hello'' = ''hello''"
  by (simp add: remove_http_def)

theorem Cqhttp_posts_in_order_witness:
  "posts (snd (Cqhttp_send_message web_ok
      (CqhttpMessage [''7''] ''hello'' (Some [''http://x/1.jpg'', ''http://x/2.jpg'']) None) (world ready))) =
     [PostData ''7'' ''message'' ''hello'',
      PostData ''7'' ''message'' ''[CQ:image,file=http://x/1.jpg]'',
      PostData ''7'' ''message'' ''[CQ:image,file=http://x/2.jpg]'']"
  using Cqhttp_posts_in_order[of web_ok "world ready" "''7''" "''hello''"
      "Some [''http://x/1.jpg'', ''http://x/2.jpg'']" None]
  by (simp add: web_ok_def world_ready remove_http_hello)

text \<open>Claim C7 as stated fails: no POST carries the token with the prefix stripped;
  \<^verbatim>\<open>_remove_http\<close> is applied to the text only.\<close>

theorem photo_url_not_stripped_counterexample:
  "PostData ''7'' ''message'' ''[CQ:image,file=x/1.jpg]'' \<notin> set (posts (snd (Cqhttp_send_message web_ok
      (CqhttpMessage [''7''] ''hello'' (Some [''http://x/1.jpg'', ''http://x/2.jpg'']) None) (world ready)))) \<and>
   PostData ''7'' ''message'' ''[CQ:image,file=http://x/1.jpg]'' \<in> set (posts (snd (Cqhttp_send_message web_ok
      (CqhttpMessage [''7''] ''hello'' (Some [''http://x/1.jpg'', ''http://x/2.jpg'']) None) (world ready))))"
  by (simp add: Cqhttp_send_message_def Cqhttp_send_to_url_def Cqhttp_send_text_def
      Cqhttp_send_photo_def Cqhttp_post_def web_ok_def world_ready remove_http_hello)

text \<open>The two other adapters at an envelope whose first target cannot be reached: the
  fault is logged and the second target is attempted.\<close>

lemma discord_isolates_targets:
  "fst (Discord_send_message url_a_down (DiscordMessage [''a'', ''b''] ''hi'' None None) (world ready)) = Inr () \<and>
   posts (snd (Discord_send_message url_a_down (DiscordMessage [''a'', ''b''] ''hi'' None None) (world ready))) =
     [PostJson ''a'' ''content'' ''hi'', PostJson ''b'' ''content'' ''hi''] \<and>
   logs (snd (Discord_send_message url_a_down (DiscordMessage [''a'', ''b''] ''hi'' None None) (world ready))) =
     [FailedToSend ''a'' ClientError]"
  by (simp add: Discord_send_message_def Discord_send_to_url_def Discord_post_def url_a_down_def
      world_ready)

lemma cqhttp_isolates_targets:
  "fst (Cqhttp_send_message url_a_down (CqhttpMessage [''a'', ''b''] ''hi'' None None) (world ready)) = Inr () \<and>
   posts (snd (Cqhttp_send_message url_a_down (CqhttpMessage [''a'', ''b''] ''hi'' None None) (world ready))) =
     [PostData ''a'' ''message'' ''hi'', PostData ''b'' ''message'' ''hi''] \<and>
   logs (snd (Cqhttp_send_message url_a_down (CqhttpMessage [''a'', ''b''] ''hi'' None None) (world ready))) =
     [FailedToSend ''a'' ClientError]"
  by (simp add: Cqhttp_send_message_def Cqhttp_send_to_url_def Cqhttp_send_text_def Cqhttp_post_def
      url_a_down_def world_ready remove_http_def)

section \<open>The worker loop\<close>

lemma ready_fields:
  "message_queue ready = []"
  "workers ready = [Telegram, Cqhttp, Discord]"
  "events ready = [StatusSet ''Telegram'' True, StatusSet ''Cqhttp'' True, StatusSet ''Discord'' True]"
  "notifier_status ready = [''Telegram'' \<mapsto> True, ''Cqhttp'' \<mapsto> True, ''Discord'' \<mapsto> True]"
  by (simp_all add: ready_def init_def start_def set_notifier_status_def Let_def)

lemma invoked_append: "invoked cls (es @ es') = invoked cls es @ invoked cls es'"
  by (induction cls es rule: invoked.induct) simp_all

lemma work_iter_events:
  assumes "message_queue s = m # rest"
    and "send_message api web cls m (world s) = (r, w')"
  shows "\<exists>s'. work_iter api web cls s = Some s' \<and>
     message_queue s' = rest \<and>
     events s' = events s @ [StatusSet (notifier_name cls) False, Invoke cls m, Returned cls r]
       @ (case r of Inr u \<Rightarrow> [StatusSet (notifier_name cls) True] | Inl e \<Rightarrow> []) \<and>
     notifier_status s' (notifier_name cls) = Some (case r of Inr u \<Rightarrow> True | Inl e \<Rightarrow> False) \<and>
     world s' = (case r of Inr u \<Rightarrow> w' | Inl e \<Rightarrow> w'\<lparr>logs := logs w' @ [WorkerError e]\<rparr>)"
  using assms by (cases r) (simp_all add: work_iter_def set_notifier_status_def)

lemma work_iter_invoked:
  assumes "message_queue s = m # rest"
  shows "\<exists>s'. work_iter api web cls s = Some s' \<and> message_queue s' = rest \<and>
     invoked cls (events s') = invoked cls (events s) @ [m]"
proof -
  obtain r w' where rw: "send_message api web cls m (world s) = (r, w')"
    by (cases "send_message api web cls m (world s)")
  from work_iter_events[OF assms rw] obtain s' where s': "work_iter api web cls s = Some s'"
    "message_queue s' = rest"
    "events s' = events s @ [StatusSet (notifier_name cls) False, Invoke cls m, Returned cls r]
       @ (case r of Inr u \<Rightarrow> [StatusSet (notifier_name cls) True] | Inl e \<Rightarrow> [])"
    by blast
  have "invoked cls (events s') = invoked cls (events s) @ [m]"
    unfolding s'(3) by (cases r) (simp_all add: invoked_append)
  with s'(1,2) show ?thesis by blast
qed

lemma work_takes_all:
  "k \<le> length (message_queue s) \<Longrightarrow>
     invoked cls (events (work api web cls k s)) = invoked cls (events s) @ take k (message_queue s) \<and>
     message_queue (work api web cls k s) = drop k (message_queue s)"
proof (induction k arbitrary: s)
  case 0
  then show ?case by simp
next
  case (Suc k)
  then obtain m rest where q: "message_queue s = m # rest"
    by (cases "message_queue s") auto
  from work_iter_invoked[OF q, of api web cls] obtain s' where s': "work_iter api web cls s = Some s'"
    "message_queue s' = rest" "invoked cls (events s') = invoked cls (events s) @ [m]"
    by blast
  from Suc.prems q s'(2) have "k \<le> length (message_queue s')" by simp
  from Suc.IH[OF this] s' q show ?case by simp
qed

text \<open>
  Claim C8. Whatever the bot API and the HTTP side answer, a worker that makes \<open>k\<close>
  passes over a queue holding at least \<open>k\<close> envelopes calls \<^verbatim>\<open>send_message\<close> on the first
  \<open>k\<close> of them, in queue order, and leaves the others in the queue: no envelope is
  skipped and no fault ends the loop. A pass whose \<^verbatim>\<open>send_message\<close> raises a fault
  completes, removes only that envelope from the queue and appends the fault to the log.
\<close>

theorem worker_survives_faults:
  "(k \<le> length (message_queue s) \<longrightarrow>
      invoked cls (events (work api web cls k s)) = invoked cls (events s) @ take k (message_queue s) \<and>
      message_queue (work api web cls k s) = drop k (message_queue s)) \<and>
   (message_queue s = m # rest \<and> send_message api web cls m (world s) = (Inl e, w') \<longrightarrow>
      (\<exists>s'. work_iter api web cls s = Some s' \<and> message_queue s' = rest \<and>
         world s' = w'\<lparr>logs := logs w' @ [WorkerError e]\<rparr>))"
proof (intro conjI impI)
  assume "k \<le> length (message_queue s)"
  from work_takes_all[OF this]
  show "invoked cls (events (work api web cls k s)) = invoked cls (events s) @ take k (message_queue s)"
    and "message_queue (work api web cls k s) = drop k (message_queue s)"
    by simp_all
next
  assume "message_queue s = m # rest \<and> send_message api web cls m (world s) = (Inl e, w')"
  then have q: "message_queue s = m # rest"
    and r: "send_message api web cls m (world s) = (Inl e, w')" by simp_all
  from work_iter_events[OF q r]
  show "\<exists>s'. work_iter api web cls s = Some s' \<and> message_queue s' = rest \<and>
         world s' = w'\<lparr>logs := logs w' @ [WorkerError e]\<rparr>"
    by auto
qed

text \<open>
  Claim C3, amended. The registry entry of a class is \<^verbatim>\<open>True\<close> right after \<^verbatim>\<open>init\<close>. In
  every pass of its worker the entry is written \<^verbatim>\<open>False\<close>, then \<^verbatim>\<open>send_message\<close> is called,
  and no other write to the registry happens until it returns. When it returns without a
  fault the entry is written \<^verbatim>\<open>True\<close>; when it raises, nothing more is written and the
  entry is \<^verbatim>\<open>False\<close> after the pass.
\<close>

theorem status_follows_outcome:
  "notifier_status (init cls s0) (notifier_name cls) = Some True \<and>
   (message_queue s = m # rest \<and> send_message api web cls m (world s) = (r, w') \<longrightarrow>
      (\<exists>s'. work_iter api web cls s = Some s' \<and>
         events s' = events s @ [StatusSet (notifier_name cls) False, Invoke cls m, Returned cls r]
           @ (case r of Inr u \<Rightarrow> [StatusSet (notifier_name cls) True] | Inl e \<Rightarrow> []) \<and>
         notifier_status s' (notifier_name cls) = Some (case r of Inr u \<Rightarrow> True | Inl e \<Rightarrow> False)))"
proof (intro conjI impI)
  show "notifier_status (init cls s0) (notifier_name cls) = Some True"
    by (simp add: init_def set_notifier_status_def Let_def)
next
  assume "message_queue s = m # rest \<and> send_message api web cls m (world s) = (r, w')"
  then have q: "message_queue s = m # rest"
    and r: "send_message api web cls m (world s) = (r, w')" by simp_all
  from work_iter_events[OF q r]
  show "\<exists>s'. work_iter api web cls s = Some s' \<and>
         events s' = events s @ [StatusSet (notifier_name cls) False, Invoke cls m, Returned cls r]
           @ (case r of Inr u \<Rightarrow> [StatusSet (notifier_name cls) True] | Inl e \<Rightarrow> []) \<and>
         notifier_status s' (notifier_name cls) = Some (case r of Inr u \<Rightarrow> True | Inl e \<Rightarrow> False)"
    by auto
qed

theorem worker_survives_faults_witness:
  "invoked Telegram (events (work chat1_times_out web_ok Telegram 2
      (ready\<lparr>message_queue := [to_chat1, to_chat2]\<rparr>))) = [to_chat1, to_chat2] \<and>
   message_queue (work chat1_times_out web_ok Telegram 2
      (ready\<lparr>message_queue := [to_chat1, to_chat2]\<rparr>)) = [] \<and>
   tg_calls (world (work chat1_times_out web_ok Telegram 2
      (ready\<lparr>message_queue := [to_chat1, to_chat2]\<rparr>))) =
     replicate 5 (SendMessage 1 ''a'') @ [SendMessage 2 ''b''] \<and>
   (\<exists>s'. work_iter chat1_times_out web_ok Telegram (ready\<lparr>message_queue := [to_chat1, to_chat2]\<rparr>) = Some s' \<and>
      message_queue s' = [to_chat2] \<and>
      last (logs (world s')) = WorkerError (RuntimeError ''Max retries exceeded.''))"
  using worker_survives_faults[of 2 "ready\<lparr>message_queue := [to_chat1, to_chat2]\<rparr>" Telegram
      chat1_times_out web_ok to_chat1 "[to_chat2]" "RuntimeError ''Max retries exceeded.''"
      "snd (send_message chat1_times_out web_ok Telegram to_chat1 (world ready))"]
  by (simp add: ready_fields world_ready to_chat1_def to_chat2_def work_iter_def
      set_notifier_status_def Telegram_send_message_def send_message_to_single_chat_def retry_def
      chat1_times_out_def eval_nat_numeral)

theorem status_follows_outcome_witness:
  "notifier_status (init Telegram start) ''Telegram'' = Some True \<and>
   (\<exists>s'. work_iter accepting web_ok Telegram (ready\<lparr>message_queue := [to_chat1]\<rparr>) = Some s' \<and>
      events s' = events ready @ [StatusSet ''Telegram'' False, Invoke Telegram to_chat1,
        Returned Telegram (Inr ()), StatusSet ''Telegram'' True] \<and>
      notifier_status s' ''Telegram'' = Some True) \<and>
   (\<exists>s'. work_iter chat1_times_out web_ok Telegram (ready\<lparr>message_queue := [to_chat1]\<rparr>) = Some s' \<and>
      events s' = events ready @ [StatusSet ''Telegram'' False, Invoke Telegram to_chat1,
        Returned Telegram (Inl (RuntimeError ''Max retries exceeded.''))] \<and>
      notifier_status s' ''Telegram'' = Some False)"
  using status_follows_outcome[of Telegram start "ready\<lparr>message_queue := [to_chat1]\<rparr>" to_chat1 "[]"
      accepting web_ok "Inr ()" "snd (send_message accepting web_ok Telegram to_chat1 (world ready))"]
    status_follows_outcome[of Telegram start "ready\<lparr>message_queue := [to_chat1]\<rparr>" to_chat1 "[]"
      chat1_times_out web_ok "Inl (RuntimeError ''Max retries exceeded.'')"
      "snd (send_message chat1_times_out web_ok Telegram to_chat1 (world ready))"]
  by (simp add: ready_fields world_ready to_chat1_def work_iter_def
      set_notifier_status_def Telegram_send_message_def send_message_to_single_chat_def retry_def
      chat1_times_out_def accepting_def eval_nat_numeral)

text \<open>Claim C3 as stated fails when the delivery raises: the queue is empty, the worker
  is idle again, and the entry is still \<^verbatim>\<open>False\<close>.\<close>

theorem status_stays_false_counterexample:
  "notifier_status (run chat1_times_out web_ok [Put Telegram to_chat1, Step Telegram] ready) ''Telegram''
     = Some False \<and>
   message_queue (run chat1_times_out web_ok [Put Telegram to_chat1, Step Telegram] ready) = [] \<and>
   events (run chat1_times_out web_ok [Put Telegram to_chat1, Step Telegram] ready) =
     events ready @ [StatusSet ''Telegram'' False, Invoke Telegram to_chat1,
       Returned Telegram (Inl (RuntimeError ''Max retries exceeded.''))]"
  by (simp add: ready_fields world_ready initialized_ready to_chat1_def work_iter_def
      put_message_into_queue_def
      set_notifier_status_def Telegram_send_message_def send_message_to_single_chat_def retry_def
      chat1_times_out_def eval_nat_numeral)

text \<open>
  Claim C1 at a system in which the three classes are initialised: an envelope put through
  \<^verbatim>\<open>TelegramNotifier.put_message_into_queue\<close> is taken from the one queue by the worker
  of \<^verbatim>\<open>DiscordNotifier\<close>, whose \<^verbatim>\<open>send_message\<close> fails its \<^verbatim>\<open>isinstance\<close> assertion. The
  worker of \<^verbatim>\<open>TelegramNotifier\<close> finds the queue empty, its \<^verbatim>\<open>send_message\<close> is never called
  with the envelope, and no call reaches the bot API.
\<close>

theorem shared_queue_misdelivers:
  "invoked Telegram (events (run accepting web_ok [Put Telegram to_chat1, Step Discord, Step Telegram] ready)) = [] \<and>
   invoked Discord (events (run accepting web_ok [Put Telegram to_chat1, Step Discord, Step Telegram] ready)) =
     [to_chat1] \<and>
   message_queue (run accepting web_ok [Put Telegram to_chat1, Step Discord, Step Telegram] ready) = [] \<and>
   tg_calls (world (run accepting web_ok [Put Telegram to_chat1, Step Discord, Step Telegram] ready)) = [] \<and>
   logs (world (run accepting web_ok [Put Telegram to_chat1, Step Discord, Step Telegram] ready)) =
     [WorkerError AssertionError]"
  by (simp add: ready_fields world_ready initialized_ready to_chat1_def work_iter_def
      put_message_into_queue_def set_notifier_status_def Discord_send_message_def)

section \<open>The confirmation protocol\<close>

lemma scan_updates_ignores:
  "scan_updates sending_time chats (filter (\<lambda>u. \<not> ignored sending_time chats u) us) = scan_updates sending_time chats us"
  by (induction sending_time chats us rule: scan_updates.induct) (auto split: option.splits)

text \<open>
  Claim C6. In the polling loop of \<^verbatim>\<open>confirm\<close>, with \<open>chats\<close> the targets: an update
  whose message is dated strictly before \<open>sending_time\<close> is passed
  over, and so is one from a chat that is not a target, whatever its text; the outcome of
  a batch is that of the batch without the ignored updates. A reply dated at or after
  the sending time from a target whose text, stripped and upper-cased, is \<^verbatim>\<open>Y\<close> makes the loop return
  \<^verbatim>\<open>True\<close>, one that gives \<^verbatim>\<open>N\<close> makes it return \<^verbatim>\<open>False\<close>, and any other text is passed
  over. A polling round whose batch decides makes \<^verbatim>\<open>confirm\<close> return that decision; a round
  whose batch does not decide is followed by a sleep of 10 and the next round; and
  \<^verbatim>\<open>confirm\<close> is the send of the question with the suffix, followed by that loop over the
  envelope's own targets.
\<close>

theorem confirm_reply_rules:
  "scan_updates sending_time chats (filter (\<lambda>u. \<not> ignored sending_time chats u) us) = scan_updates sending_time chats us \<and>
   (date < sending_time \<longrightarrow>
      scan_updates sending_time chats (Update i (Some (ChatMessage date chat content)) # us) = scan_updates sending_time chats us) \<and>
   (chat \<notin> set chats \<longrightarrow>
      scan_updates sending_time chats (Update i (Some (ChatMessage date chat content)) # us) = scan_updates sending_time chats us) \<and>
   (sending_time \<le> date \<and> chat \<in> set chats \<and> upper (strip t) = ''Y'' \<longrightarrow>
      scan_updates sending_time chats (Update i (Some (ChatMessage date chat (Some t))) # us) = Some (Inr True)) \<and>
   (sending_time \<le> date \<and> chat \<in> set chats \<and> upper (strip t) = ''N'' \<longrightarrow>
      scan_updates sending_time chats (Update i (Some (ChatMessage date chat (Some t))) # us) = Some (Inr False)) \<and>
   (upper (strip t) \<noteq> ''Y'' \<and> upper (strip t) \<noteq> ''N'' \<longrightarrow>
      scan_updates sending_time chats (Update i (Some (ChatMessage date chat (Some t))) # us) = scan_updates sending_time chats us) \<and>
   (get_new_updates api w = (Inr batch, w') \<and> scan_updates sending_time chats batch = Some r \<longrightarrow>
      confirm_poll api sending_time chats (Suc fuel) w = (Some r, w')) \<and>
   (get_new_updates api w = (Inr batch, w') \<and> scan_updates sending_time chats batch = None \<longrightarrow>
      confirm_poll api sending_time chats (Suc fuel) w =
        confirm_poll api sending_time chats fuel (w'\<lparr>sleeps := sleeps w' @ [10]\<rparr>)) \<and>
   (Telegram \<in> initialized w \<and>
    Telegram_send_message api (TelegramMessage chats (question @ CHR 0x0A # ''Please reply Y/N'') ps vs) w
      = (Inr u, w'') \<longrightarrow>
      confirm api sending_time (TelegramMessage chats question ps vs) fuel w = confirm_poll api sending_time chats fuel w'')"
  using scan_updates_ignores[of sending_time chats us] by (simp add: confirm_def)

lemma normalize_examples:
  "upper (strip ''Y'') = ''Y''" "upper (strip ''y'') = ''Y''" "upper (strip '' n '') = ''N''"
  "upper (strip ''N'') = ''N''" "upper (strip ''maybe'') = ''MAYBE''"
  by code_simp+

lemma confirm_example:
  "fst (confirm (inbox
      [[Update 1 (Some (ChatMessage 99 7 (Some ''Y''))), Update 2 (Some (ChatMessage 100 8 (Some ''Y'')))],
       [Update 3 (Some (ChatMessage 101 7 (Some ''maybe'')))],
       [Update 4 (Some (ChatMessage 102 7 (Some '' n '')))]])
      100 (TelegramMessage [7] ''Go?'' None None) 3 (world ready)) = Some (Inr False)"
  "fst (confirm (inbox
      [[Update 1 (Some (ChatMessage 99 7 (Some ''Y''))), Update 2 (Some (ChatMessage 100 8 (Some ''Y'')))],
       [Update 3 (Some (ChatMessage 101 7 (Some ''maybe'')))],
       [Update 4 (Some (ChatMessage 102 7 (Some '' n '')))]])
      100 (TelegramMessage [7] ''Go?'' None None) 2 (world ready)) = None"
  "fst (confirm (inbox [[Update 1 (Some (ChatMessage 100 7 (Some ''y'')))]])
      100 (TelegramMessage [7] ''Go?'' None None) 1 (world ready)) = Some (Inr True)"
  unfolding world_ready by code_simp+

lemma confirm_example_steps:
  "fst (Telegram_send_message yes_inbox
     (TelegramMessage [7] (''Go?'' @ CHR 0x0A # ''Please reply Y/N'') None None) (world ready)) = Inr ()"
  "fst (get_new_updates yes_inbox asked) = Inr [Update 1 (Some (ChatMessage 100 7 (Some ''y'')))]"
  "Telegram \<in> initialized (world ready)"
  unfolding world_ready asked_def by code_simp+

theorem confirm_reply_rules_witness:
  "scan_updates 100 [7] [Update 1 (Some (ChatMessage 99 7 (Some ''Y''))),
      Update 2 (Some (ChatMessage 100 8 (Some ''Y''))),
      Update 3 (Some (ChatMessage 101 7 (Some ''maybe''))),
      Update 4 (Some (ChatMessage 102 7 (Some '' n '')))] = Some (Inr False) \<and>
   scan_updates 100 [7] [Update 5 (Some (ChatMessage 100 7 (Some ''y'')))] = Some (Inr True) \<and>
   fst (confirm (inbox [[Update 1 (Some (ChatMessage 100 7 (Some ''y'')))]])
      100 (TelegramMessage [7] ''Go?'' None None) 1 (world ready)) = Some (Inr True) \<and>
   confirm_poll yes_inbox 100 [7] 1 asked = (Some (Inr True), snd (get_new_updates yes_inbox asked)) \<and>
   confirm yes_inbox 100 (TelegramMessage [7] ''Go?'' None None) 1 (world ready) =
     confirm_poll yes_inbox 100 [7] 1 asked"
  using confirm_reply_rules[where sending_time=100 and chats="[7]" and api=yes_inbox and w=asked
      and batch="[Update 1 (Some (ChatMessage 100 7 (Some ''y'')))]"
      and w'="snd (get_new_updates yes_inbox asked)" and r="Inr True" and fuel=0]
    confirm_reply_rules[where sending_time=100 and chats="[7]" and api=yes_inbox and w="world ready"
      and question="''Go?''" and ps=None and vs=None and u="()" and w''=asked and fuel=1]
    confirm_example_steps
    confirm_reply_rules[where sending_time=100 and chats="[7]" and date=99 and i=1 and chat=7
      and content="Some ''Y''" and t="''Y''" and us="[Update 2 (Some (ChatMessage 100 8 (Some ''Y''))),
      Update 3 (Some (ChatMessage 101 7 (Some ''maybe''))),
      Update 4 (Some (ChatMessage 102 7 (Some '' n '')))]"]
    confirm_reply_rules[where sending_time=100 and chats="[7]" and date=100 and i=2 and chat=8
      and content="Some ''Y''" and t="''Y''" and us="[
      Update 3 (Some (ChatMessage 101 7 (Some ''maybe''))),
      Update 4 (Some (ChatMessage 102 7 (Some '' n '')))]"]
    confirm_reply_rules[where sending_time=100 and chats="[7]" and date=101 and i=3 and chat=7
      and content="Some ''maybe''" and t="''maybe''" and us="[
      Update 4 (Some (ChatMessage 102 7 (Some '' n '')))]"]
    confirm_reply_rules[where sending_time=100 and chats="[7]" and date=102 and i=4 and chat=7
      and content="Some '' n ''" and t="'' n ''" and us="[]"]
    confirm_reply_rules[where sending_time=100 and chats="[7]" and date=100 and i=5 and chat=7
      and content="Some ''y''" and t="''y''" and us="[]"]
    normalize_examples confirm_example
  by (simp add: prod_eq_iff asked_def)

section \<open>One worker alone\<close>

text \<open>No adapter changes which classes are initialised.\<close>

lemma retry_loop_initialized:
  "initialized (snd (retry_loop api call tries delay k w)) = initialized w"
  by (induction k arbitrary: w) (auto split: sum.splits simp: Let_def)

lemma single_chat_initialized:
  "initialized (snd (send_message_to_single_chat api c t ps vs w)) = initialized w"
  by (simp add: send_message_to_single_chat_def retry_def retry_loop_initialized)

lemma send_to_chats_initialized:
  "initialized (snd (send_to_chats api cs t ps vs w)) = initialized w"
proof (induction cs arbitrary: w)
  case Nil
  then show ?case by simp
next
  case (Cons c cs)
  obtain r w1 where a: "send_message_to_single_chat api c t ps vs w = (r, w1)"
    by (cases "send_message_to_single_chat api c t ps vs w")
  with single_chat_initialized[of api c t ps vs w] have i1: "initialized w1 = initialized w" by simp
  obtain r2 w2 where b: "send_message_to_single_chat api c t None None
      (w1\<lparr>logs := logs w1 @ [SendingWithoutMedia BadRequest]\<rparr>) = (r2, w2)"
    by (cases "send_message_to_single_chat api c t None None
      (w1\<lparr>logs := logs w1 @ [SendingWithoutMedia BadRequest]\<rparr>)")
  with single_chat_initialized[of api c t None None "w1\<lparr>logs := logs w1 @ [SendingWithoutMedia BadRequest]\<rparr>"]
  have i2: "initialized w2 = initialized w" using i1 by simp
  show ?case using a b i1 i2 Cons.IH
    by (cases r; cases r2) (auto split: if_splits)
qed

lemma post_each_initialized:
  assumes "\<And>x w. initialized (snd (f x w)) = initialized w"
  shows "initialized (snd (post_each f xs w)) = initialized w"
proof (induction xs arbitrary: w)
  case Nil
  then show ?case by simp
next
  case (Cons x xs)
  obtain r w1 where a: "f x w = (r, w1)" by (cases "f x w")
  with assms[of x w] have "initialized w1 = initialized w" by simp
  with a Cons.IH[of w1] show ?case by (cases r) auto
qed

lemma try_each_url_initialized:
  assumes "\<And>x w. initialized (snd (f x w)) = initialized w"
  shows "initialized (try_each_url f xs w) = initialized w"
proof (induction xs arbitrary: w)
  case Nil
  then show ?case by simp
next
  case (Cons x xs)
  obtain r w1 where a: "f x w = (r, w1)" by (cases "f x w")
  with assms[of x w] have "initialized w1 = initialized w" by simp
  with a Cons.IH[of w1] Cons.IH[of "w1\<lparr>logs := logs w1 @ [FailedToSend x (projl r)]\<rparr>"]
  show ?case by (cases r) auto
qed

lemma Cqhttp_post_initialized: "initialized (snd (Cqhttp_post web url msg w)) = initialized w"
  by (auto simp: Cqhttp_post_def Let_def split: sum.splits http_response.splits)

lemma Discord_post_initialized: "initialized (snd (Discord_post web url msg w)) = initialized w"
  by (auto simp: Discord_post_def Let_def split: sum.splits http_response.splits)

lemma Cqhttp_send_to_url_initialized:
  "initialized (snd (Cqhttp_send_to_url web url t ps vs w)) = initialized w"
proof -
  obtain r1 w1 where a: "Cqhttp_send_text web url t w = (r1, w1)"
    by (cases "Cqhttp_send_text web url t w")
  then have i1: "initialized w1 = initialized w"
    using Cqhttp_post_initialized[of web url "remove_http t" w] by (simp add: Cqhttp_send_text_def)
  obtain r2 w2 where b: "post_each (Cqhttp_send_photo web url) (urls_of ps) w1 = (r2, w2)"
    by (cases "post_each (Cqhttp_send_photo web url) (urls_of ps) w1")
  have i2: "initialized w2 = initialized w1"
    using post_each_initialized[of "Cqhttp_send_photo web url" "urls_of ps" w1] b
    by (simp add: Cqhttp_send_photo_def Cqhttp_post_initialized)
  have i3: "initialized (snd (post_each (Cqhttp_send_video web url) (urls_of vs) w2)) = initialized w2"
    by (rule post_each_initialized) (simp add: Cqhttp_send_video_def Cqhttp_post_initialized)
  show ?thesis using a b i1 i2 i3
    by (cases r1; cases r2) (simp_all add: Cqhttp_send_to_url_def)
qed

lemma Discord_send_to_url_initialized:
  "initialized (snd (Discord_send_to_url web url t ps vs w)) = initialized w"
proof -
  obtain r1 w1 where a: "Discord_post web url t w = (r1, w1)"
    by (cases "Discord_post web url t w")
  then have i1: "initialized w1 = initialized w"
    using Discord_post_initialized[of web url t w] by simp
  obtain r2 w2 where b: "post_each (Discord_post web url) (urls_of ps) w1 = (r2, w2)"
    by (cases "post_each (Discord_post web url) (urls_of ps) w1")
  have i2: "initialized w2 = initialized w1"
    using post_each_initialized[of "Discord_post web url" "urls_of ps" w1] b
    by (simp add: Discord_post_initialized)
  have i3: "initialized (snd (post_each (Discord_post web url) (urls_of vs) w2)) = initialized w2"
    by (rule post_each_initialized) (simp add: Discord_post_initialized)
  show ?thesis using a b i1 i2 i3
    by (cases r1; cases r2) (simp_all add: Discord_send_to_url_def)
qed

lemma send_message_initialized:
  "initialized (snd (send_message api web cls m w)) = initialized w"
proof (cases cls)
  case Telegram
  then show ?thesis
    by (cases m) (simp_all add: Telegram_send_message_def send_to_chats_initialized)
next
  case Cqhttp
  have "\<And>ul t ps vs. initialized (try_each_url (\<lambda>url. Cqhttp_send_to_url web url t ps vs) ul w) = initialized w"
    by (rule try_each_url_initialized) (rule Cqhttp_send_to_url_initialized)
  with Cqhttp show ?thesis
    by (cases m) (simp_all add: Cqhttp_send_message_def)
next
  case Discord
  have "\<And>ul t ps vs. initialized (try_each_url (\<lambda>url. Discord_send_to_url web url t ps vs) ul w) = initialized w"
    by (rule try_each_url_initialized) (rule Discord_send_to_url_initialized)
  with Discord show ?thesis
    by (cases m) (simp_all add: Discord_send_message_def)
qed

lemma work_iter_workers:
  assumes "message_queue s = m # rest"
    and "send_message api web cls m (world s) = (r, w')"
  shows "\<exists>s'. work_iter api web cls s = Some s' \<and> workers s' = workers s"
  using assms by (cases r) (simp_all add: work_iter_def set_notifier_status_def)

lemma work_iter_frame:
  assumes "work_iter api web cls s = Some s'"
  shows "initialized (world s') = initialized (world s) \<and> workers s' = workers s"
proof -
  from assms obtain m rest where q: "message_queue s = m # rest"
    by (cases "message_queue s") (simp_all add: work_iter_def)
  obtain r w' where rw: "send_message api web cls m (world s) = (r, w')"
    by (cases "send_message api web cls m (world s)")
  with send_message_initialized[of api web cls m "world s"] have i: "initialized w' = initialized (world s)"
    by simp
  from work_iter_events[OF q rw] assms have
    w: "world s' = (case r of Inr u \<Rightarrow> w' | Inl e \<Rightarrow> w'\<lparr>logs := logs w' @ [WorkerError e]\<rparr>)"
    by auto
  from work_iter_workers[OF q rw] assms have "workers s' = workers s"
    by auto
  moreover have "initialized (world s') = initialized (world s)"
    unfolding w using i by (cases r) simp_all
  ultimately show ?thesis by simp
qed

text \<open>
  When every put and every turn of a schedule belongs to one initialised class, the
  envelopes its \<^verbatim>\<open>send_message\<close> was called with, followed by those still queued, are
  the envelopes put, in the order of the puts: each is delivered once, in order.
\<close>

lemma single_worker_fifo:
  assumes "\<forall>a \<in> set acts. a = Step cls \<or> (\<exists>m. a = Put cls m)"
    and "cls \<in> initialized (world s)" and "cls \<in> set (workers s)"
  shows "invoked cls (events (run api web acts s)) @ message_queue (run api web acts s) =
         invoked cls (events s) @ message_queue s @ puts acts"
  using assms
proof (induction acts arbitrary: s)
  case Nil
  then show ?case by simp
next
  case (Cons a acts)
  from Cons.prems(1) have rest: "\<forall>a \<in> set acts. a = Step cls \<or> (\<exists>m. a = Put cls m)" by simp
  from Cons.prems(1) consider (step) "a = Step cls" | (put) m where "a = Put cls m" by auto
  then show ?case
  proof cases
    case put
    let ?s = "s\<lparr>message_queue := message_queue s @ [m]\<rparr>"
    from Cons.prems have "run api web (a # acts) s = run api web acts ?s"
      by (simp add: put put_message_into_queue_def)
    moreover from Cons.IH[OF rest, of ?s] Cons.prems
    have "invoked cls (events (run api web acts ?s)) @ message_queue (run api web acts ?s) =
         invoked cls (events s) @ (message_queue s @ [m]) @ puts acts" by simp
    ultimately show ?thesis by (simp add: put)
  next
    case step
    show ?thesis
    proof (cases "message_queue s")
      case Nil
      then have "run api web (a # acts) s = run api web acts s"
        by (simp add: step work_iter_def)
      with Cons.IH[OF rest Cons.prems(2,3)] show ?thesis by (simp add: step)
    next
      case (Cons m q)
      from work_iter_invoked[OF Cons, of api web cls] obtain s' where
        s': "work_iter api web cls s = Some s'" "message_queue s' = q"
          "invoked cls (events s') = invoked cls (events s) @ [m]" by blast
      from work_iter_frame[OF s'(1)] Cons.prems
      have fr: "cls \<in> initialized (world s')" "cls \<in> set (workers s')" by simp_all
      from s'(1) Cons.prems(3) have "run api web (a # acts) s = run api web acts s'"
        by (simp add: step)
      with Cons.IH[OF rest fr] s'(2,3) Cons show ?thesis by (simp add: step)
    qed
  qed
qed

text \<open>
  After a \<^verbatim>\<open>BadRequest\<close> of the first send to a chat, the loop makes the send without
  media to that chat, with a retry budget of its own; every call of that send is the plain
  text message.
\<close>

lemma bad_request_resend:
  assumes "send_message_to_single_chat api c t ps vs w = (Inl BadRequest, w1)"
  shows "send_to_chats api (c # rest) t ps vs w =
     (case send_message_to_single_chat api c t None None
             (w1\<lparr>logs := logs w1 @ [SendingWithoutMedia BadRequest]\<rparr>) of
        (Inr r, w2) \<Rightarrow> send_to_chats api rest t ps vs w2
      | (Inl e2, w2) \<Rightarrow> (Inl e2, w2))"
    and "\<exists>n. 1 \<le> n \<and> n \<le> 5 \<and> attempts api c t None None w' = replicate n (SendMessage c t)"
  using assms attempts_replicate[of api w' c t None None] by auto

end
